theory Spec2Isabelle
  imports Main
begin

section \<open>Errors, the environment and the world\<close>

text \<open>
  Go's \<open>error\<close> values are opaque. The package itself only makes errors with
  \<open>fmt.Errorf\<close>; every other error comes from the operating system (\<open>os.Pipe\<close>,
  \<open>exec.Cmd.Run\<close>) or from a callback supplied by the caller.
\<close>

datatype error =
    Errorf string
  | Foreign string

type_synonym addr = nat

text \<open>
  What the dialog process reads on its standard input: the caller's terminal
  (\<open>os.Stdin\<close>) or the read end of the pipe a producer writes to, given by the bytes
  the producer wrote.
\<close>

datatype stdin = OsStdin | PipeReader string

text \<open>
  The observable effects of a run: each start of the external program, with its complete
  argument list and its standard input, and each call of a validator, with its argument.
\<close>

datatype event = ExecDialog "string list" stdin | Validated string

text \<open>
  The world holds the caller-owned cells (\<open>*string\<close> and \<open>*bool\<close> targets, addressed by
  pointers, so that two pointers may be equal) and the trace of effects so far.
\<close>

record world =
  strings :: "addr \<Rightarrow> string"
  bools :: "addr \<Rightarrow> bool"
  trace :: "event list"

text \<open>
  Everything outside the package is a parameter: the package variable \<open>DefaultTitle\<close>,
  the answer of \<open>terminal.GetSize\<close> (width, height, error), the error of \<open>os.Pipe\<close>, and
  the external program, which maps its argument list and standard input to the text it
  writes on file descriptor 3 and the error of \<open>cmd.Run\<close>.
\<close>

record env =
  DefaultTitle :: string
  GetSize :: "int \<times> int \<times> error option"
  Pipe :: "error option"
  cmdRun :: "string list \<Rightarrow> stdin \<Rightarrow> string \<times> error option"

definition DEFAULT_HEIGHT :: int where "DEFAULT_HEIGHT = 20"
definition DEFAULT_WIDTH :: int where "DEFAULT_WIDTH = 60"
definition DEFAULT_MENU_HEIGHT :: int where "DEFAULT_MENU_HEIGHT = 15"

section \<open>The dialog nodes\<close>

record Common =
  DialogRc :: string
  Title :: string
  Width :: int
  Height :: int

datatype 'd MenuOption = MenuOption
  (Key: string)
  (Text: string)
  (Next: 'd)
  (NextDefaultKey: string)
  (CrumbText: "(unit \<Rightarrow> string) option")

datatype 'd Menu = Menu
  (Menu_Common: Common)
  (Menu_Text: "(unit \<Rightarrow> string) option")
  (MenuHeight: int)
  (DefaultKey: string)
  (Options: "(unit \<Rightarrow> 'd MenuOption list \<times> error option) option")

record CheckListItem =
  Name :: string
  Value :: "addr option"

text \<open>
  What a producer (\<open>func(io.WriteCloser) error\<close>) does with the sink it is given: the
  bytes it writes, whether it closes the sink, and the error it returns.
\<close>

datatype production = Production
  (written: string)
  (closesSink: bool)
  (returned: "error option")

text \<open>
  The \<open>Dialog\<close> interface with its implementations. \<open>nil\<close> is the nil interface value.
  A function-typed field is \<open>None\<close> when the Go field is nil. A callback is a function
  of its arguments: it neither reads nor writes the caller's cells. The pointers
  \<open>ParentMenu\<close> and \<open>MenuOption\<close> of a \<open>ChildDialog\<close> are held as the values they point
  to: neither is ever written through.
\<close>

datatype Dialog =
    nil
  | MsgBox Common string Dialog
  | Pause Common string int Dialog
  | MenuD "Dialog Menu"
  | InputBox Common "(unit \<Rightarrow> string) option" "addr option"
      "(string \<Rightarrow> string \<times> bool) option" Dialog
  | CheckListBox Common "(unit \<Rightarrow> string) option" "CheckListItem list"
      "(string \<Rightarrow> string \<times> bool) option" Dialog
  | ProgramBox Common string "(unit \<Rightarrow> production) option" Dialog
  | ChildDialog Dialog "unit \<Rightarrow> string" "Dialog Menu" "Dialog MenuOption"

text \<open>
  A call of \<open>Run\<close> panics (a nil dereference), or returns Go's pair of a dialog and an
  error, or never returns (it waits for a producer that leaves its sink open).
\<close>

datatype outcome = Panics | Blocks | Returns Dialog "error option"

section \<open>Library functions used by the package\<close>

text \<open>\<open>strconv.Itoa\<close>: the decimal digits, with a minus sign for a negative number.\<close>

fun digits :: "nat \<Rightarrow> string" where
  "digits n =
     (if n < 10 then [''0123456789'' ! n]
      else digits (n div 10) @ [''0123456789'' ! (n mod 10)])"

declare digits.simps [simp del]

definition Itoa :: "int \<Rightarrow> string" where
  "Itoa i = (if i < 0 then CHR ''-'' # digits (nat (- i)) else digits (nat i))"

text \<open>
  \<open>strconv.Atoi\<close> on a platform with 64-bit \<open>int\<close>: an optional sign, then one or more
  decimal digits and nothing else; a value outside the range of \<open>int\<close> is an error.
\<close>

definition isDigit :: "char \<Rightarrow> bool" where
  "isDigit c \<longleftrightarrow> c \<in> set ''0123456789''"

definition digitVal :: "char \<Rightarrow> int" where
  "digitVal c = of_char c - 48"

definition Atoi :: "string \<Rightarrow> int option" where
  "Atoi s =
     (let (neg, ds) =
        (case s of
           [] \<Rightarrow> (False, [])
         | c # cs \<Rightarrow>
             if c = CHR ''-'' then (True, cs)
             else if c = CHR ''+'' then (False, cs)
             else (False, s))
      in if ds = [] \<or> \<not> list_all isDigit ds then None
         else
           let n = fold (\<lambda>ch a. a * 10 + digitVal ch) ds 0;
               v = (if neg then - n else n)
           in if v < - (2 ^ 63) \<or> 2 ^ 63 - 1 < v then None else Some v)"

text \<open>
  \<open>strings.TrimSpace\<close> removes the leading and then the trailing white space runes in the
  sense of \<open>unicode.IsSpace\<close>. On the UTF-8 bytes of the string these are the encodings
  below; \<open>spaceWidth\<close> is the width in bytes of such a rune at the start of the string, 0
  when there is none, and \<open>spaceWidthLast\<close> the same at the end of the string.
\<close>

definition asciiSpace :: "string list" where
  "asciiSpace = [[CHR 0x09], [CHR 0x0A], [CHR 0x0B], [CHR 0x0C], [CHR 0x0D], [CHR 0x20]]"

definition latin1Space :: "string list" where
  "latin1Space = [[CHR 0xC2, CHR 0x85], [CHR 0xC2, CHR 0xA0]]"

definition wideSpace :: "string list" where
  "wideSpace =
     [[CHR 0xE1, CHR 0x9A, CHR 0x80],
      [CHR 0xE2, CHR 0x80, CHR 0x80], [CHR 0xE2, CHR 0x80, CHR 0x81],
      [CHR 0xE2, CHR 0x80, CHR 0x82], [CHR 0xE2, CHR 0x80, CHR 0x83],
      [CHR 0xE2, CHR 0x80, CHR 0x84], [CHR 0xE2, CHR 0x80, CHR 0x85],
      [CHR 0xE2, CHR 0x80, CHR 0x86], [CHR 0xE2, CHR 0x80, CHR 0x87],
      [CHR 0xE2, CHR 0x80, CHR 0x88], [CHR 0xE2, CHR 0x80, CHR 0x89],
      [CHR 0xE2, CHR 0x80, CHR 0x8A], [CHR 0xE2, CHR 0x80, CHR 0xA8],
      [CHR 0xE2, CHR 0x80, CHR 0xA9], [CHR 0xE2, CHR 0x80, CHR 0xAF],
      [CHR 0xE2, CHR 0x81, CHR 0x9F], [CHR 0xE3, CHR 0x80, CHR 0x80]]"

definition spaceWidth :: "string \<Rightarrow> nat" where
  "spaceWidth s =
     (if take 1 s \<in> set asciiSpace then 1
      else if take 2 s \<in> set latin1Space then 2
      else if take 3 s \<in> set wideSpace then 3
      else 0)"

definition spaceWidthLast :: "string \<Rightarrow> nat" where
  "spaceWidthLast s =
     (if rev (take 1 (rev s)) \<in> set asciiSpace then 1
      else if rev (take 2 (rev s)) \<in> set latin1Space then 2
      else if rev (take 3 (rev s)) \<in> set wideSpace then 3
      else 0)"

function trimLeft :: "string \<Rightarrow> string" where
  "trimLeft s = (if spaceWidth s = 0 then s else trimLeft (drop (spaceWidth s) s))"
  by pat_completeness auto
termination
proof (relation "measure length")
  show "wf (measure length)" by simp
next
  fix s :: string
  assume w: "spaceWidth s \<noteq> 0"
  have "spaceWidth [] = 0"
    by (simp add: spaceWidth_def asciiSpace_def latin1Space_def wideSpace_def)
  with w have "s \<noteq> []" by auto
  with w show "(drop (spaceWidth s) s, s) \<in> measure length" by simp
qed

function trimRight :: "string \<Rightarrow> string" where
  "trimRight s =
     (if spaceWidthLast s = 0 then s
      else trimRight (take (length s - spaceWidthLast s) s))"
  by pat_completeness auto
termination
proof (relation "measure length")
  show "wf (measure length)" by simp
next
  fix s :: string
  assume w: "spaceWidthLast s \<noteq> 0"
  have "spaceWidthLast [] = 0"
    by (simp add: spaceWidthLast_def asciiSpace_def latin1Space_def wideSpace_def)
  with w have "s \<noteq> []" by auto
  with w show "(take (length s - spaceWidthLast s) s, s) \<in> measure length" by simp
qed

declare trimLeft.simps [simp del] trimRight.simps [simp del]

definition TrimSpace :: "string \<Rightarrow> string" where
  "TrimSpace s = trimRight (trimLeft s)"

text \<open>
  \<open>regexp.MustCompile("\\s+").Split(s, -1)\<close>. The class \<open>\s\<close> of Go's regular
  expressions is \<open>[\t\n\f\r ]\<close>. The matches are the maximal runs of such characters; the
  result is the list of the pieces between them, with an empty first piece when the
  string starts with a run and an empty last piece when it ends with one, and the single
  empty piece for the empty string.
\<close>

definition isReSpace :: "char \<Rightarrow> bool" where
  "isReSpace c \<longleftrightarrow> c \<in> set [CHR 0x09, CHR 0x0A, CHR 0x0C, CHR 0x0D, CHR 0x20]"

function Split :: "string \<Rightarrow> string list" where
  "Split [] = [[]]"
| "Split (c # cs) =
     (if isReSpace c then [] # Split (dropWhile isReSpace cs)
      else (case Split cs of [] \<Rightarrow> [[c]] | t # ts \<Rightarrow> (c # t) # ts))"
  by pat_completeness auto
termination
  by (relation "measure length") (auto simp: less_Suc_eq_le length_dropWhile_le)

section \<open>Running the external program\<close>

text \<open>
  \<open>runStdin\<close> puts the flag for the result channel in front of the arguments. When
  \<open>os.Pipe\<close> fails it returns the empty string and that error, and no process is
  started. Otherwise the process runs, and its text and the error of \<open>cmd.Run\<close> are
  returned; the error of the copying goroutine is read from the channel and dropped.
\<close>

definition runStdin ::
  "env \<Rightarrow> string list \<Rightarrow> stdin \<Rightarrow> world \<Rightarrow> (string \<times> error option) \<times> world" where
  "runStdin e args inp w =
     (let cmdArgs = [''--output-fd'', ''3''] @ args
      in case Pipe e of
           Some err \<Rightarrow> (([], Some err), w)
         | None \<Rightarrow> (cmdRun e cmdArgs inp, w\<lparr>trace := trace w @ [ExecDialog cmdArgs inp]\<rparr>))"

definition run :: "env \<Rightarrow> string list \<Rightarrow> world \<Rightarrow> (string \<times> error option) \<times> world" where
  "run e args w = runStdin e args OsStdin w"

section \<open>Title and size\<close>

definition title :: "env \<Rightarrow> Common \<Rightarrow> string" where
  "title e c = (if Title c \<noteq> [] then Title c else DefaultTitle e)"

definition width :: "env \<Rightarrow> Common \<Rightarrow> int" where
  "width e c =
     (if Width c > 0 then Width c
      else if Width c < 0 then
        (case GetSize e of
           (w, h, None) \<Rightarrow> w + Width c
         | (w, h, Some err) \<Rightarrow> DEFAULT_WIDTH)
      else DEFAULT_WIDTH)"

definition height :: "env \<Rightarrow> Common \<Rightarrow> int" where
  "height e c =
     (if Height c > 0 then Height c
      else if Height c < 0 then
        (case GetSize e of
           (w, h, None) \<Rightarrow> h + Height c
         | (w, h, Some err) \<Rightarrow> DEFAULT_HEIGHT)
      else DEFAULT_HEIGHT)"

definition runArgs :: "env \<Rightarrow> Common \<Rightarrow> string list" where
  "runArgs e c = [''--title'', title e c]"

text \<open>The two characters backslash and \<open>n\<close> that the package puts after the breadcrumbs.\<close>

definition sep :: string where
  "sep = [CHR 0x5C, CHR ''n'']"

section \<open>The Run methods\<close>

definition MsgBox_Run ::
  "env \<Rightarrow> Common \<Rightarrow> string \<Rightarrow> Dialog \<Rightarrow> string \<Rightarrow> world \<Rightarrow> outcome \<times> world" where
  "MsgBox_Run e c text nextSibling crumbs w =
     (let args = runArgs e c @ [''--msgbox'', text, Itoa (height e c), Itoa (width e c)];
          ((k, err), w1) = run e args w
      in case err of
           Some x \<Rightarrow> (Returns nil (Some x), w1)
         | None \<Rightarrow> (Returns nextSibling None, w1))"

definition Pause_Run ::
  "env \<Rightarrow> Common \<Rightarrow> string \<Rightarrow> int \<Rightarrow> Dialog \<Rightarrow> string \<Rightarrow> world \<Rightarrow> outcome \<times> world" where
  "Pause_Run e c text seconds nextSibling crumbs w =
     (let args = runArgs e c @
            [''--pause'', crumbs @ sep @ text, Itoa (height e c), Itoa (width e c),
             Itoa seconds];
          ((k, err), w1) = run e args w
      in case err of
           Some x \<Rightarrow> (Returns nil (Some x), w1)
         | None \<Rightarrow> (Returns nextSibling None, w1))"

definition menuHeight :: "'d Menu \<Rightarrow> int \<Rightarrow> int" where
  "menuHeight m optlen = (if MenuHeight m > 0 then MenuHeight m else optlen)"

text \<open>
  The search loop of \<open>Menu.Run\<close>: the first option whose key is the returned string gives
  the \<open>ChildDialog\<close>; when the loop ends without one, the error is returned.
\<close>

definition notFound :: "string \<Rightarrow> error" where
  "notFound k = Errorf (''returned option '' @ [CHR 0x27] @ k @ [CHR 0x27] @ '' not found'')"

fun selectOption :: "Dialog Menu \<Rightarrow> string \<Rightarrow> Dialog MenuOption list \<Rightarrow> outcome" where
  "selectOption m k [] = Returns nil (Some (notFound k))"
| "selectOption m k (mo # opts) =
     (if Key mo = k then
        (let crumbFunc = (case CrumbText mo of None \<Rightarrow> (\<lambda>_. Text mo) | Some f \<Rightarrow> f)
         in Returns (ChildDialog (Next mo) crumbFunc m mo) None)
      else selectOption m k opts)"

text \<open>The argument list that \<open>Menu.Run\<close> builds for the options \<open>opts\<close>.\<close>

definition Menu_args :: "env \<Rightarrow> 'd Menu \<Rightarrow> string \<Rightarrow> 'd MenuOption list \<Rightarrow> string list" where
  "Menu_args e m crumbs opts =
     (let args0 = runArgs e (Menu_Common m);
          args1 = (if DefaultKey m \<noteq> [] then args0 @ [''--default-item'', DefaultKey m]
                   else args0);
          text = (case Menu_Text m of None \<Rightarrow> crumbs | Some f \<Rightarrow> crumbs @ sep @ f ());
          args2 = args1 @
            [''--menu'', text, Itoa (height e (Menu_Common m)),
             Itoa (width e (Menu_Common m)),
             Itoa (menuHeight m (int (length opts)))]
      in fold (\<lambda>mo args. args @ [Key mo, Text mo]) opts args2)"

definition Menu_Run :: "env \<Rightarrow> Dialog Menu \<Rightarrow> string \<Rightarrow> world \<Rightarrow> outcome \<times> world" where
  "Menu_Run e m crumbs w =
     (case Options m of
        None \<Rightarrow> (Panics, w)
      | Some supplier \<Rightarrow>
          (case supplier () of
             (opts, Some x) \<Rightarrow> (Returns nil (Some x), w)
           | (opts, None) \<Rightarrow>
               (let ((k, err), w1) = run e (Menu_args e m crumbs opts) w
                in case err of
                     Some x \<Rightarrow> (Returns nil (Some x), w1)
                   | None \<Rightarrow> (selectOption m k opts, w1))))"

text \<open>
  A configured validator is called with the returned text. Its first result is dropped,
  and the branch taken when the second is false is empty.
\<close>

definition callValidate ::
  "(string \<Rightarrow> string \<times> bool) option \<Rightarrow> string \<Rightarrow> world \<Rightarrow> world" where
  "callValidate validate k w =
     (case validate of
        None \<Rightarrow> w
      | Some v \<Rightarrow>
          (let (r, ok) = v k;
               w1 = w\<lparr>trace := trace w @ [Validated k]\<rparr>
           in if \<not> ok then w1 else w1))"

definition InputBox_Run ::
  "env \<Rightarrow> Common \<Rightarrow> (unit \<Rightarrow> string) option \<Rightarrow> addr option \<Rightarrow>
   (string \<Rightarrow> string \<times> bool) option \<Rightarrow> Dialog \<Rightarrow> string \<Rightarrow> world \<Rightarrow> outcome \<times> world" where
  "InputBox_Run e c text val validate nextSibling crumbs w =
     (case val of
        None \<Rightarrow> (Returns nil (Some (Errorf ''inputbox has no result ptr'')), w)
      | Some p \<Rightarrow>
          (case text of
             None \<Rightarrow> (Returns nil (Some (Errorf ''inputbox has no text func'')), w)
           | Some t \<Rightarrow>
               (let args = runArgs e c @
                      [''--inputbox'', crumbs @ sep @ t (), Itoa (height e c),
                       Itoa (width e c), strings w p];
                    ((k, err), w1) = run e args w
                in case err of
                     Some x \<Rightarrow> (Returns nil (Some x), w1)
                   | None \<Rightarrow>
                       (let w2 = callValidate validate k w1
                        in (Returns nextSibling None,
                            w2\<lparr>strings := (strings w2)(p := k)\<rparr>)))))"

text \<open>
  \<open>itemArgs\<close> appends, for the item at index \<open>i\<close>, its index, its name and the state of
  its cell. Reading the cell through a nil pointer panics (\<open>None\<close>).
\<close>

fun itemArgs ::
  "world \<Rightarrow> int \<Rightarrow> CheckListItem list \<Rightarrow> string list \<Rightarrow> string list option" where
  "itemArgs w i [] ret = Some ret"
| "itemArgs w i (item # items) ret =
     (case Value item of
        None \<Rightarrow> None
      | Some p \<Rightarrow>
          itemArgs w (i + 1) items
            (ret @ [Itoa i, Name item, if bools w p then ''on'' else ''off'']))"

text \<open>
  The parse loop: \<open>setIndices\<close> is a \<open>map[int]bool\<close>, in which a missing key reads as
  false.
\<close>

definition parseIndices :: "nat \<Rightarrow> string \<Rightarrow> (int \<rightharpoonup> bool)" where
  "parseIndices n k =
     fold (\<lambda>v setIndices.
             case Atoi v of
               None \<Rightarrow> setIndices
             | Some vi \<Rightarrow>
                 if vi \<ge> 0 \<and> vi < int n then setIndices(vi \<mapsto> True) else setIndices)
          (Split (TrimSpace k)) Map.empty"

definition lookupIndex :: "(int \<rightharpoonup> bool) \<Rightarrow> int \<Rightarrow> bool" where
  "lookupIndex setIndices i = (case setIndices i of None \<Rightarrow> False | Some b \<Rightarrow> b)"

text \<open>The store loop: the cell of the item at index \<open>i\<close> is set to \<open>setIndices[i]\<close>.\<close>

fun storeItems ::
  "(int \<rightharpoonup> bool) \<Rightarrow> int \<Rightarrow> CheckListItem list \<Rightarrow> (addr \<Rightarrow> bool) \<Rightarrow> (addr \<Rightarrow> bool) option"
  where
  "storeItems setIndices i [] bs = Some bs"
| "storeItems setIndices i (item # items) bs =
     (case Value item of
        None \<Rightarrow> None
      | Some p \<Rightarrow> storeItems setIndices (i + 1) items (bs(p := lookupIndex setIndices i)))"

definition CheckListBox_Run ::
  "env \<Rightarrow> Common \<Rightarrow> (unit \<Rightarrow> string) option \<Rightarrow> CheckListItem list \<Rightarrow>
   (string \<Rightarrow> string \<times> bool) option \<Rightarrow> Dialog \<Rightarrow> string \<Rightarrow> world \<Rightarrow> outcome \<times> world" where
  "CheckListBox_Run e c text items validate nextSibling crumbs w =
     (if list_ex (\<lambda>item. Value item = None) items
      then (Returns nil (Some (Errorf ''checklistbox has no result ptr'')), w)
      else
        (case text of
           None \<Rightarrow> (Returns nil (Some (Errorf ''checklistbox has no text func'')), w)
         | Some t \<Rightarrow>
             (let args = runArgs e c @
                    [''--checklist'', crumbs @ sep @ t (), Itoa (height e c),
                     Itoa (width e c), Itoa (int (length items))]
              in case itemArgs w 0 items [] of
                   None \<Rightarrow> (Panics, w)
                 | Some ia \<Rightarrow>
                     (let ((k, err), w1) = run e (args @ ia) w
                      in case err of
                           Some x \<Rightarrow> (Returns nil (Some x), w1)
                         | None \<Rightarrow>
                             (let w2 = callValidate validate k w1;
                                  setIndices = parseIndices (length items) k
                              in case storeItems setIndices 0 items (bools w2) of
                                   None \<Rightarrow> (Panics, w2)
                                 | Some bs \<Rightarrow>
                                     (Returns nextSibling None, w2\<lparr>bools := bs\<rparr>))))))"

text \<open>
  \<open>ProgramBox.Run\<close> makes an \<open>io.Pipe\<close>, starts the producer on its write end in a
  goroutine, and runs the external program on its read end. The read end is not a file,
  so \<open>cmd.Run\<close>, called by \<open>runStdin\<close>, copies it to the standard input of the program
  and returns only when the program has exited and that copy has ended. The program is
  taken to be started and to accept every byte written to it; the copy then ends exactly
  when the producer closes its sink, which nothing in the package does for it. So when
  the pipe for the result could be made and the producer leaves its sink open, \<open>Run\<close>
  never returns, whatever the program and the producer report. When \<open>os.Pipe\<close> fails,
  \<open>runStdin\<close> returns before \<open>cmd.Run\<close>. When \<open>runStdin\<close> returns, its error is
  returned if there is one, and only otherwise is the producer's error read from the
  channel; the producer is taken to return.
\<close>

definition ProgramBox_Run ::
  "env \<Rightarrow> Common \<Rightarrow> string \<Rightarrow> (unit \<Rightarrow> production) option \<Rightarrow> Dialog \<Rightarrow>
   string \<Rightarrow> world \<Rightarrow> outcome \<times> world" where
  "ProgramBox_Run e c text program next crumbs w =
     (case program of
        None \<Rightarrow> (Returns nil (Some (Errorf ''programbox has no program callback set'')), w)
      | Some prog \<Rightarrow>
          (let p = prog ();
               args = runArgs e c @
                 [''--programbox'', crumbs @ sep @ text, Itoa (height e c),
                  Itoa (width e c)];
               ((k, err), w1) = runStdin e args (PipeReader (written p)) w
           in if Pipe e = None \<and> \<not> closesSink p then (Blocks, w1)
              else
                (case err of
                   Some x \<Rightarrow> (Returns nil (Some x), w1)
                 | None \<Rightarrow>
                     (case returned p of
                        Some x \<Rightarrow> (Returns nil (Some x), w1)
                      | None \<Rightarrow> (Returns next None, w1)))))"

text \<open>
  The method \<open>Run\<close> of the interface. A \<open>ChildDialog\<close> embeds a \<open>Dialog\<close>, so its \<open>Run\<close>
  is the promoted method of the embedded value; calling a method of the nil interface
  panics.
\<close>

fun Run :: "env \<Rightarrow> Dialog \<Rightarrow> string \<Rightarrow> world \<Rightarrow> outcome \<times> world" where
  "Run e nil crumbs w = (Panics, w)"
| "Run e (MsgBox c text nextSibling) crumbs w = MsgBox_Run e c text nextSibling crumbs w"
| "Run e (Pause c text seconds nextSibling) crumbs w =
     Pause_Run e c text seconds nextSibling crumbs w"
| "Run e (MenuD m) crumbs w = Menu_Run e m crumbs w"
| "Run e (InputBox c text val validate nextSibling) crumbs w =
     InputBox_Run e c text val validate nextSibling crumbs w"
| "Run e (CheckListBox c text items validate nextSibling) crumbs w =
     CheckListBox_Run e c text items validate nextSibling crumbs w"
| "Run e (ProgramBox c text program next) crumbs w =
     ProgramBox_Run e c text program next crumbs w"
| "Run e (ChildDialog d crumb parentMenu menuOption) crumbs w = Run e d crumbs w"

section \<open>Views used in the statements\<close>

text \<open>
  The errors the package makes when a callback or a result cell is not configured.
\<close>

definition PreconditionFailure :: "error \<Rightarrow> bool" where
  "PreconditionFailure x \<longleftrightarrow>
     x \<in> set [Errorf ''inputbox has no result ptr'', Errorf ''inputbox has no text func'',
              Errorf ''checklistbox has no result ptr'',
              Errorf ''checklistbox has no text func'',
              Errorf ''programbox has no program callback set'']"

text \<open>
  The selected-index set of a checklist with \<open>n\<close> items for the returned text \<open>k\<close>: the
  indices that read as true in the map built by the parse loop.
\<close>

definition selectedIndices :: "nat \<Rightarrow> string \<Rightarrow> int set" where
  "selectedIndices n k = {i. lookupIndex (parseIndices n k) i}"

section \<open>Example inputs\<close>

text \<open>
  An environment with a terminal of 80 columns and 24 lines in which the external
  program answers \<open>k\<close> with the error \<open>err\<close>, whatever its arguments; the same with a
  failing terminal size query; a world in which every string cell holds \<open>old\<close> and every
  boolean cell is false; and a \<open>Common\<close> with nothing configured.
\<close>

definition exampleEnv :: "string \<Rightarrow> error option \<Rightarrow> env" where
  "exampleEnv k err =
     \<lparr>DefaultTitle = ''Title'', GetSize = (80, 24, None), Pipe = None,
      cmdRun = (\<lambda>args inp. (k, err))\<rparr>"

definition noTerminalEnv :: env where
  "noTerminalEnv = (exampleEnv [] None)\<lparr>GetSize := (0, 0, Some (Foreign ''ENOTTY''))\<rparr>"

definition exampleWorld :: world where
  "exampleWorld = \<lparr>strings = (\<lambda>a. ''old''), bools = (\<lambda>a. False), trace = []\<rparr>"

definition exampleCommon :: Common where
  "exampleCommon = \<lparr>DialogRc = [], Title = [], Width = 0, Height = 0\<rparr>"

text \<open>
  The menu of the specification's round trip: options \<open>1\<close> (label \<open>A\<close>, next \<open>X\<close>) and
  \<open>2\<close> (label \<open>B\<close>, next \<open>Y\<close>), neither with a crumb producer.
\<close>

definition nodeX :: Dialog where
  "nodeX = MsgBox exampleCommon ''X'' nil"

definition nodeY :: Dialog where
  "nodeY = MsgBox exampleCommon ''Y'' nil"

definition optionA :: "Dialog MenuOption" where
  "optionA = MenuOption ''1'' ''A'' nodeX [] None"

definition optionB :: "Dialog MenuOption" where
  "optionB = MenuOption ''2'' ''B'' nodeY [] None"

definition exampleSupplier :: "unit \<Rightarrow> Dialog MenuOption list \<times> error option" where
  "exampleSupplier u = ([optionA, optionB], None)"

definition exampleMenu :: "Dialog Menu" where
  "exampleMenu = Menu exampleCommon None 0 [] (Some exampleSupplier)"

text \<open>
  A text supplier; a validator that rejects \<open>new\<close>; a producer that writes \<open>log\<close>,
  closes its sink and fails; a producer that writes nothing, leaves its sink open and
  fails; a checklist of three items with cells 0, 1 and 2; and a checklist of two items
  that share the cell 0.
\<close>

definition exampleText :: "unit \<Rightarrow> string" where
  "exampleText u = ''pick''"

definition rejectNew :: "string \<Rightarrow> string \<times> bool" where
  "rejectNew s = (s, s \<noteq> ''new'')"



definition threeItems :: "CheckListItem list" where
  "threeItems =
     [\<lparr>Name = ''a'', Value = Some 0\<rparr>, \<lparr>Name = ''b'', Value = Some 1\<rparr>,
      \<lparr>Name = ''c'', Value = Some 2\<rparr>]"

definition sharedItems :: "CheckListItem list" where
  "sharedItems = [\<lparr>Name = ''a'', Value = Some 0\<rparr>, \<lparr>Name = ''b'', Value = Some 0\<rparr>]"

definition sharedChecklist :: Dialog where
  "sharedChecklist = CheckListBox exampleCommon (Some exampleText) sharedItems None nil"

section \<open>Sizing\<close>

text \<open>
  Claim C8. For a configured width or height \<open>v\<close>, the resolver returns \<open>v\<close> when
  \<open>v > 0\<close>, the hard-coded default (60 for the width, 20 for the height) when \<open>v = 0\<close>,
  the screen dimension plus \<open>v\<close> when \<open>v < 0\<close> and the query of the terminal size
  succeeds, and the default when \<open>v < 0\<close> and the query fails.
\<close>

theorem resolve_width_height:
  "(Width c > 0 \<longrightarrow> width e c = Width c) \<and>
   (Width c = 0 \<longrightarrow> width e c = 60) \<and>
   (Width c < 0 \<and> GetSize e = (sw, sh, None) \<longrightarrow> width e c = sw + Width c) \<and>
   (Width c < 0 \<and> GetSize e = (sw, sh, Some x) \<longrightarrow> width e c = 60) \<and>
   (Height c > 0 \<longrightarrow> height e c = Height c) \<and>
   (Height c = 0 \<longrightarrow> height e c = 20) \<and>
   (Height c < 0 \<and> GetSize e = (sw, sh, None) \<longrightarrow> height e c = sh + Height c) \<and>
   (Height c < 0 \<and> GetSize e = (sw, sh, Some x) \<longrightarrow> height e c = 20)"
  by (simp add: width_def height_def DEFAULT_WIDTH_def DEFAULT_HEIGHT_def)

theorem resolve_width_height_witness:
  "width (exampleEnv [] None) (exampleCommon\<lparr>Width := 70\<rparr>) = 70 \<and>
   height (exampleEnv [] None) (exampleCommon\<lparr>Width := 70\<rparr>) = 20 \<and>
   width (exampleEnv [] None) (exampleCommon\<lparr>Width := - 4, Height := - 2\<rparr>) = 76 \<and>
   height (exampleEnv [] None) (exampleCommon\<lparr>Width := - 4, Height := - 2\<rparr>) = 22 \<and>
   width noTerminalEnv (exampleCommon\<lparr>Width := - 4, Height := - 2\<rparr>) = 60 \<and>
   height noTerminalEnv (exampleCommon\<lparr>Width := - 4, Height := - 2\<rparr>) = 20"
  using
    resolve_width_height [of "exampleCommon\<lparr>Width := 70\<rparr>" "exampleEnv [] None" 80 24]
    resolve_width_height [of "exampleCommon\<lparr>Width := - 4, Height := - 2\<rparr>"
      "exampleEnv [] None" 80 24]
    resolve_width_height [of "exampleCommon\<lparr>Width := - 4, Height := - 2\<rparr>"
      noTerminalEnv 0 0 "Foreign ''ENOTTY''"]
  by (simp add: exampleEnv_def noTerminalEnv_def exampleCommon_def)

section \<open>Menu\<close>

lemma selectOption_find:
  "selectOption m k opts =
     (case find (\<lambda>mo. Key mo = k) opts of
        None \<Rightarrow> Returns nil (Some (notFound k))
      | Some mo \<Rightarrow>
          Returns (ChildDialog (Next mo)
            (case CrumbText mo of None \<Rightarrow> (\<lambda>_. Text mo) | Some f \<Rightarrow> f) m mo) None)"
  by (induction opts) simp_all

lemma Menu_Run_selected:
  assumes "Options m = Some supplier" and "supplier () = (opts, None)"
    and "fst (run e (Menu_args e m crumbs opts) w) = (k, None)"
  shows "fst (Menu_Run e m crumbs w) = selectOption m k opts"
proof -
  obtain w1 where "run e (Menu_args e m crumbs opts) w = ((k, None), w1)"
    using assms(3) by (cases "run e (Menu_args e m crumbs opts) w") auto
  then show ?thesis
    using assms(1,2) by (simp add: Menu_Run_def)
qed

lemma fold_append_pairs:
  "fold (\<lambda>mo args. args @ [Key mo, Text mo]) opts acc =
     acc @ concat (map (\<lambda>mo. [Key mo, Text mo]) opts)"
  by (induction opts arbitrary: acc) simp_all

lemma find_of_split:
  "P x \<Longrightarrow> \<forall>y \<in> set pre. \<not> P y \<Longrightarrow> find P (pre @ x # post) = Some x"
  by (induction pre) simp_all

lemma selectOption_child:
  "selectOption m k opts = Returns cb None \<Longrightarrow>
     \<exists>mo \<in> set opts. \<exists>crumb. cb = ChildDialog (Next mo) crumb m mo"
  by (induction opts) (auto split: if_splits)

text \<open>
  Claim C1. When the options supplier of a menu succeeds and the external program
  returns a key that is the key of some option, \<open>Run\<close> returns a \<open>ChildDialog\<close> that
  wraps the next node of the first option with that key (no option before it has the
  key), whose crumb producer is the option's own producer if it has one and otherwise
  returns the option's label, and that carries the menu and the matched option.
\<close>

theorem Menu_Run_match:
  assumes "Options m = Some supplier" and "supplier () = (opts, None)"
    and "fst (run e (Menu_args e m crumbs opts) w) = (k, None)"
    and "opts = pre @ mo # post" and "Key mo = k" and "\<forall>x \<in> set pre. Key x \<noteq> k"
  shows "fst (Run e (MenuD m) crumbs w) =
           Returns
             (ChildDialog (Next mo)
                (case CrumbText mo of None \<Rightarrow> (\<lambda>u. Text mo) | Some f \<Rightarrow> f) m mo)
             None"
proof -
  have "find (\<lambda>mo. Key mo = k) opts = Some mo"
    using assms(4-6) by (simp add: find_of_split)
  then show ?thesis
    using Menu_Run_selected [OF assms(1-3)] by (simp add: selectOption_find)
qed

theorem Menu_Run_match_witness:
  "fst (Run (exampleEnv ''2'' None) (MenuD exampleMenu) ''home'' exampleWorld) =
     Returns (ChildDialog nodeY (\<lambda>u. ''B'') exampleMenu optionB) None"
  using Menu_Run_match [where m = exampleMenu and supplier = exampleSupplier
      and opts = "[optionA, optionB]" and pre = "[optionA]" and mo = optionB and post = "[]"
      and e = "exampleEnv ''2'' None" and crumbs = "''home''" and w = exampleWorld
      and k = "''2''"]
  by (simp add: exampleMenu_def exampleSupplier_def optionA_def optionB_def run_def
      runStdin_def exampleEnv_def)

text \<open>
  Claim C2. The key returned for a menu is compared with the option keys by equality of
  strings and the first option with that key wins; when no option has the key, \<open>Run\<close>
  returns the error \<open>returned option 'k' not found\<close> together with the nil dialog.
\<close>

theorem Menu_Run_first_match_or_error:
  assumes "Options m = Some supplier" and "supplier () = (opts, None)"
    and "fst (run e (Menu_args e m crumbs opts) w) = (k, None)"
  shows "fst (Run e (MenuD m) crumbs w) =
           (case find (\<lambda>mo. Key mo = k) opts of
              None \<Rightarrow> Returns nil (Some (notFound k))
            | Some mo \<Rightarrow>
                Returns
                  (ChildDialog (Next mo)
                     (case CrumbText mo of None \<Rightarrow> (\<lambda>u. Text mo) | Some f \<Rightarrow> f) m mo)
                  None) \<and>
         ((\<forall>mo \<in> set opts. Key mo \<noteq> k) \<longrightarrow>
            fst (Run e (MenuD m) crumbs w) =
              Returns nil
                (Some (Errorf (''returned option '' @ [CHR 0x27] @ k @ [CHR 0x27] @
                   '' not found''))))"
proof -
  have r: "fst (Run e (MenuD m) crumbs w) = selectOption m k opts"
    using Menu_Run_selected [OF assms] by simp
  have "(\<forall>mo \<in> set opts. Key mo \<noteq> k) \<longrightarrow> find (\<lambda>mo. Key mo = k) opts = None"
    by (simp add: find_None_iff)
  then show ?thesis
    using r by (auto simp: selectOption_find notFound_def)
qed

theorem Menu_Run_first_match_or_error_witness:
  "fst (Run (exampleEnv ''9'' None) (MenuD exampleMenu) ''home'' exampleWorld) =
     Returns nil (Some (Errorf (''returned option '' @ [CHR 0x27] @ ''9'' @ [CHR 0x27] @
       '' not found'')))"
  using Menu_Run_first_match_or_error [where m = exampleMenu and supplier = exampleSupplier
      and opts = "[optionA, optionB]" and e = "exampleEnv ''9'' None" and crumbs = "''home''"
      and w = exampleWorld and k = "''9''"]
  by (simp add: exampleMenu_def exampleSupplier_def optionA_def optionB_def run_def
      runStdin_def exampleEnv_def notFound_def)

text \<open>
  Claim C9. When the options supplier succeeds (and the pipe for the result can be
  made), the menu starts the external program once, with exactly these arguments in
  this order: the flag and number of the result channel, the title flag and the resolved
  title, the default-item flag and key only when the default key is not empty, then
  \<open>--menu\<close>, the breadcrumbs (followed by the separator and the extra text only when a
  text supplier is configured), the height, the width, the menu height (the configured
  one when positive, otherwise the number of options), and the key and label of each
  option in the order of the options.
\<close>

theorem Menu_Run_command_line:
  assumes "Options m = Some supplier" and "supplier () = (opts, None)" and "Pipe e = None"
  shows "trace (snd (Run e (MenuD m) crumbs w)) =
     trace w @
     [ExecDialog
        ([''--output-fd'', ''3'', ''--title'', title e (Menu_Common m)] @
         (if DefaultKey m = [] then [] else [''--default-item'', DefaultKey m]) @
         [''--menu'',
          (case Menu_Text m of None \<Rightarrow> crumbs | Some f \<Rightarrow> crumbs @ sep @ f ()),
          Itoa (height e (Menu_Common m)),
          Itoa (width e (Menu_Common m)),
          Itoa (if MenuHeight m > 0 then MenuHeight m else int (length opts))] @
         concat (map (\<lambda>mo. [Key mo, Text mo]) opts))
        OsStdin]"
  using assms
  by (simp add: Menu_Run_def run_def runStdin_def Menu_args_def fold_append_pairs
      runArgs_def menuHeight_def Let_def split: prod.splits option.splits)

theorem Menu_Run_command_line_witness:
  "trace (snd (Run (exampleEnv ''2'' None) (MenuD exampleMenu) ''home'' exampleWorld)) =
     [ExecDialog
        [''--output-fd'', ''3'', ''--title'', ''Title'', ''--menu'', ''home'', ''20'', ''60'',
         ''2'', ''1'', ''A'', ''2'', ''B'']
        OsStdin]"
  using Menu_Run_command_line [where m = exampleMenu and supplier = exampleSupplier
      and opts = "[optionA, optionB]" and e = "exampleEnv ''2'' None" and crumbs = "''home''"
      and w = exampleWorld]
  by (simp add: exampleMenu_def exampleSupplier_def optionA_def optionB_def exampleEnv_def
      exampleWorld_def exampleCommon_def title_def height_def width_def DEFAULT_HEIGHT_def
      DEFAULT_WIDTH_def Itoa_def digits.simps)

text \<open>
  Claim C10. A dialog that a menu's \<open>Run\<close> returns without an error is a \<open>ChildDialog\<close>
  of that menu around the next node of one of its options, and for every environment,
  breadcrumbs string and world, \<open>Run\<close> on it is \<open>Run\<close> on the wrapped node: the same
  outcome (dialog and error, panic or no return) and the same world. The crumb producer and the
  references to the menu and the option play no part.
\<close>

theorem ChildDialog_Run_transparent:
  assumes "Run e (MenuD m) crumbs0 w0 = (Returns cb None, w1)"
  shows "\<exists>crumb mo.
           cb = ChildDialog (Next mo) crumb m mo \<and>
           (\<forall>e' crumbs w. Run e' cb crumbs w = Run e' (Next mo) crumbs w)"
proof -
  from assms obtain k opts where "selectOption m k opts = Returns cb None"
    by (auto simp: Menu_Run_def Let_def split: option.splits prod.splits)
  then obtain mo crumb where "cb = ChildDialog (Next mo) crumb m mo"
    using selectOption_child by blast
  then show ?thesis by simp
qed

theorem ChildDialog_Run_transparent_witness:
  "fst (Run (exampleEnv ''2'' None) (MenuD exampleMenu) ''home'' exampleWorld) =
     Returns (ChildDialog nodeY (\<lambda>u. ''B'') exampleMenu optionB) None \<and>
   (\<exists>crumb mo.
      ChildDialog nodeY (\<lambda>u. ''B'') exampleMenu optionB =
        ChildDialog (Next mo) crumb exampleMenu mo \<and>
      (\<forall>e' crumbs w.
         Run e' (ChildDialog nodeY (\<lambda>u. ''B'') exampleMenu optionB) crumbs w =
         Run e' (Next mo) crumbs w))"
proof -
  let ?r = "Run (exampleEnv ''2'' None) (MenuD exampleMenu) ''home'' exampleWorld"
  have f: "fst ?r = Returns (ChildDialog nodeY (\<lambda>u. ''B'') exampleMenu optionB) None"
    by (simp add: Menu_Run_def exampleMenu_def exampleSupplier_def optionA_def optionB_def
        run_def runStdin_def exampleEnv_def Let_def)
  then have "?r = (Returns (ChildDialog nodeY (\<lambda>u. ''B'') exampleMenu optionB) None, snd ?r)"
    by (metis prod.collapse)
  from ChildDialog_Run_transparent [OF this] f show ?thesis
    by blast
qed

section \<open>The cells and the trace\<close>

lemma run_cells:
  "run e args w = (r, w1) \<Longrightarrow> strings w1 = strings w \<and> bools w1 = bools w"
  by (auto simp: run_def runStdin_def Let_def split: option.splits)

lemma runStdin_cells:
  "runStdin e args inp w = (r, w1) \<Longrightarrow> strings w1 = strings w \<and> bools w1 = bools w"
  by (auto simp: runStdin_def Let_def split: option.splits)

lemma callValidate_cells:
  "strings (callValidate v k w) = strings w \<and> bools (callValidate v k w) = bools w"
  by (simp add: callValidate_def Let_def split: option.splits prod.splits)

lemma callValidate_trace:
  "trace (callValidate v k w) = trace w @ (case v of None \<Rightarrow> [] | Some f \<Rightarrow> [Validated k])"
  by (simp add: callValidate_def Let_def split: option.splits prod.splits)

section \<open>InputBox\<close>

text \<open>
  Claim C4. When the external program succeeds for an input box and returns \<open>k\<close>,
  \<open>Run\<close> returns the configured sibling without an error and the result cell holds
  \<open>k\<close>, whatever validator is configured: a configured validator is called once, with
  \<open>k\<close>, after the program ran, and neither of its results appears in the returned
  dialog or in the cells.
\<close>

theorem InputBox_Run_writes_unconditionally:
  assumes "fst (run e (runArgs e c @
             [''--inputbox'', crumbs @ sep @ t (), Itoa (height e c), Itoa (width e c),
              strings w p]) w) = (k, None)"
  shows "fst (Run e (InputBox c (Some t) (Some p) validate next) crumbs w) = Returns next None \<and>
         strings (snd (Run e (InputBox c (Some t) (Some p) validate next) crumbs w)) =
           (strings w)(p := k) \<and>
         bools (snd (Run e (InputBox c (Some t) (Some p) validate next) crumbs w)) = bools w \<and>
         trace (snd (Run e (InputBox c (Some t) (Some p) validate next) crumbs w)) =
           trace (snd (run e (runArgs e c @
             [''--inputbox'', crumbs @ sep @ t (), Itoa (height e c), Itoa (width e c),
              strings w p]) w)) @
           (case validate of None \<Rightarrow> [] | Some v \<Rightarrow> [Validated k])"
proof -
  let ?args = "runArgs e c @
             [''--inputbox'', crumbs @ sep @ t (), Itoa (height e c), Itoa (width e c),
              strings w p]"
  obtain w1 where r: "run e ?args w = ((k, None), w1)"
    using assms by (cases "run e ?args w") auto
  have "Run e (InputBox c (Some t) (Some p) validate next) crumbs w =
      (Returns next None,
       (callValidate validate k w1)\<lparr>strings := (strings (callValidate validate k w1))(p := k)\<rparr>)"
    using r by (simp add: InputBox_Run_def Let_def)
  then show ?thesis
    using r run_cells [OF r] by (simp add: callValidate_cells callValidate_trace)
qed

theorem InputBox_Run_writes_unconditionally_witness:
  "\<not> snd (rejectNew ''new'') \<and> strings exampleWorld 0 = ''old'' \<and>
   fst (Run (exampleEnv ''new'' None)
          (InputBox exampleCommon (Some exampleText) (Some 0) (Some rejectNew) nodeX)
          ''home'' exampleWorld) = Returns nodeX None \<and>
   strings (snd (Run (exampleEnv ''new'' None)
          (InputBox exampleCommon (Some exampleText) (Some 0) (Some rejectNew) nodeX)
          ''home'' exampleWorld)) 0 = ''new''"
  using InputBox_Run_writes_unconditionally [where e = "exampleEnv ''new'' None"
      and c = exampleCommon and crumbs = "''home''" and t = exampleText and w = exampleWorld
      and p = 0 and k = "''new''" and validate = "Some rejectNew" and ?next = nodeX]
  by (simp add: run_def runStdin_def exampleEnv_def rejectNew_def exampleWorld_def)

section \<open>Preconditions\<close>

text \<open>
  Claim C5. An input box without a result cell or without a text supplier, and a
  checklist with an item without a cell or without a text supplier, make \<open>Run\<close> return
  the nil dialog with a precondition error and leave the world as it was: nothing is
  added to the trace, so the external program is not started.
\<close>

theorem precondition_failure_before_invocation:
  "(val = None \<or> text = None \<longrightarrow>
      (\<exists>x. Run e (InputBox c text val validate next) crumbs w = (Returns nil (Some x), w) \<and>
           PreconditionFailure x)) \<and>
   ((\<exists>item \<in> set items. Value item = None) \<or> text = None \<longrightarrow>
      (\<exists>x. Run e (CheckListBox c text items validate next) crumbs w =
             (Returns nil (Some x), w) \<and>
           PreconditionFailure x))"
  by (auto simp: InputBox_Run_def CheckListBox_Run_def PreconditionFailure_def list_ex_iff
      split: option.splits)

theorem precondition_failure_before_invocation_witness:
  "(\<exists>x. Run (exampleEnv ''new'' None)
           (InputBox exampleCommon (Some exampleText) None None nodeX) ''home'' exampleWorld =
         (Returns nil (Some x), exampleWorld) \<and> PreconditionFailure x) \<and>
   (\<exists>x. Run (exampleEnv ''0'' None)
           (CheckListBox exampleCommon (Some exampleText)
              (threeItems @ [\<lparr>Name = ''d'', Value = None\<rparr>]) None nodeX) ''home''
           exampleWorld =
         (Returns nil (Some x), exampleWorld) \<and> PreconditionFailure x)"
  using
    precondition_failure_before_invocation [where val = None and ?text = "Some exampleText"
      and e = "exampleEnv ''new'' None" and c = exampleCommon and validate = None
      and ?next = nodeX and crumbs = "''home''" and w = exampleWorld and items = "[]"]
    precondition_failure_before_invocation [where val = None and ?text = "Some exampleText"
      and e = "exampleEnv ''0'' None" and c = exampleCommon and validate = None
      and ?next = nodeX and crumbs = "''home''" and w = exampleWorld
      and items = "threeItems @ [\<lparr>Name = ''d'', Value = None\<rparr>]"]
  by simp

section \<open>ProgramBox\<close>




section \<open>Errors leave the cells alone\<close>

lemma MsgBox_Run_error:
  "MsgBox_Run e c text n crumbs w = (Returns nxt (Some x), w') \<Longrightarrow>
     nxt = nil \<and> strings w' = strings w \<and> bools w' = bools w"
  by (auto simp: MsgBox_Run_def Let_def split: prod.splits option.splits dest: run_cells)

lemma Pause_Run_error:
  "Pause_Run e c text s n crumbs w = (Returns nxt (Some x), w') \<Longrightarrow>
     nxt = nil \<and> strings w' = strings w \<and> bools w' = bools w"
  by (auto simp: Pause_Run_def Let_def split: prod.splits option.splits dest: run_cells)

lemma selectOption_error:
  "selectOption m k opts = Returns nxt (Some x) \<Longrightarrow> nxt = nil"
  by (induction opts) (auto split: if_splits)

lemma Menu_Run_error:
  "Menu_Run e m crumbs w = (Returns nxt (Some x), w') \<Longrightarrow>
     nxt = nil \<and> strings w' = strings w \<and> bools w' = bools w"
  by (auto simp: Menu_Run_def Let_def split: prod.splits option.splits
      dest: run_cells selectOption_error)

lemma InputBox_Run_error:
  "InputBox_Run e c text val validate n crumbs w = (Returns nxt (Some x), w') \<Longrightarrow>
     nxt = nil \<and> strings w' = strings w \<and> bools w' = bools w"
  by (auto simp: InputBox_Run_def Let_def split: prod.splits option.splits dest: run_cells)

lemma CheckListBox_Run_error:
  "CheckListBox_Run e c text items validate n crumbs w = (Returns nxt (Some x), w') \<Longrightarrow>
     nxt = nil \<and> strings w' = strings w \<and> bools w' = bools w"
  by (auto simp: CheckListBox_Run_def Let_def split: prod.splits option.splits if_splits
      dest: run_cells)

lemma ProgramBox_Run_error:
  "ProgramBox_Run e c text prog n crumbs w = (Returns nxt (Some x), w') \<Longrightarrow>
     nxt = nil \<and> strings w' = strings w \<and> bools w' = bools w"
  by (auto simp: ProgramBox_Run_def Let_def split: prod.splits option.splits if_splits
      dest: runStdin_cells)

text \<open>
  Claim C7. Whenever \<open>Run\<close> of any dialog returns an error, whatever its origin (the
  external program, a missing callback or cell, an unmatched selection, the options
  supplier, the producer), the dialog it returns is nil and every string cell and every
  boolean cell holds what it held before the call.
\<close>

theorem Run_error_leaves_cells:
  "Run e d crumbs w = (Returns nxt (Some x), w') \<Longrightarrow>
     nxt = nil \<and> strings w' = strings w \<and> bools w' = bools w"
proof (induction d)
  case nil
  then show ?case by simp
next
  case (MsgBox c t n)
  then show ?case using MsgBox_Run_error by simp
next
  case (Pause c t s n)
  then show ?case using Pause_Run_error by simp
next
  case (MenuD m)
  then show ?case using Menu_Run_error by simp
next
  case (InputBox c t val validate n)
  then show ?case using InputBox_Run_error by simp
next
  case (CheckListBox c t items validate n)
  then show ?case using CheckListBox_Run_error by simp
next
  case (ProgramBox c t prog n)
  then show ?case using ProgramBox_Run_error by simp
next
  case (ChildDialog d crumb pm mo)
  then show ?case by simp
qed

theorem Run_error_leaves_cells_witness:
  "fst (Run (exampleEnv ''new'' (Some (Foreign ''exit status 1'')))
          (ChildDialog
             (InputBox exampleCommon (Some exampleText) (Some 0) None nodeX)
             exampleText exampleMenu optionA)
          ''home'' exampleWorld) = Returns nil (Some (Foreign ''exit status 1'')) \<and>
   strings (snd (Run (exampleEnv ''new'' (Some (Foreign ''exit status 1'')))
          (ChildDialog
             (InputBox exampleCommon (Some exampleText) (Some 0) None nodeX)
             exampleText exampleMenu optionA)
          ''home'' exampleWorld)) = strings exampleWorld \<and>
   bools (snd (Run (exampleEnv ''new'' (Some (Foreign ''exit status 1'')))
          (ChildDialog
             (InputBox exampleCommon (Some exampleText) (Some 0) None nodeX)
             exampleText exampleMenu optionA)
          ''home'' exampleWorld)) = bools exampleWorld"
proof -
  let ?r = "Run (exampleEnv ''new'' (Some (Foreign ''exit status 1'')))
          (ChildDialog
             (InputBox exampleCommon (Some exampleText) (Some 0) None nodeX)
             exampleText exampleMenu optionA)
          ''home'' exampleWorld"
  have f: "fst ?r = Returns nil (Some (Foreign ''exit status 1''))"
    by (simp add: InputBox_Run_def run_def runStdin_def exampleEnv_def Let_def)
  then have "?r = (Returns nil (Some (Foreign ''exit status 1'')), snd ?r)"
    by (metis prod.collapse)
  from Run_error_leaves_cells [OF this] f show ?thesis
    by blast
qed

section \<open>CheckListBox\<close>

lemma lookupIndex_upd:
  "lookupIndex (m(a \<mapsto> True)) i \<longleftrightarrow> i = a \<or> lookupIndex m i"
  by (simp add: lookupIndex_def)

lemma lookupIndex_empty: "\<not> lookupIndex Map.empty i"
  by (simp add: lookupIndex_def)

lemma lookupIndex_fold:
  "lookupIndex
     (fold (\<lambda>v setIndices.
              case Atoi v of
                None \<Rightarrow> setIndices
              | Some vi \<Rightarrow>
                  if vi \<ge> 0 \<and> vi < int n then setIndices(vi \<mapsto> True) else setIndices)
        toks acc) i \<longleftrightarrow>
   lookupIndex acc i \<or> (0 \<le> i \<and> i < int n \<and> (\<exists>v \<in> set toks. Atoi v = Some i))"
proof (induction toks arbitrary: acc)
  case Nil
  then show ?case by simp
next
  case (Cons v toks)
  show ?case
    by (cases "Atoi v") (auto simp: Cons.IH lookupIndex_upd)
qed

lemma selectedIndices_tokens:
  "selectedIndices n k =
     {vi. 0 \<le> vi \<and> vi < int n \<and> (\<exists>v \<in> set (Split (TrimSpace k)). Atoi v = Some vi)}"
  by (auto simp: selectedIndices_def parseIndices_def lookupIndex_fold lookupIndex_empty)

lemma storeItems_frame:
  "storeItems si i items bs = Some bs' \<Longrightarrow> \<forall>item \<in> set items. Value item \<noteq> Some p \<Longrightarrow>
     bs' p = bs p"
proof (induction items arbitrary: i bs)
  case Nil
  then show ?case by simp
next
  case (Cons item items)
  then obtain q where q: "Value item = Some q" by (cases "Value item") auto
  with Cons.prems have "storeItems si (i + 1) items (bs(q := lookupIndex si i)) = Some bs'"
    by simp
  from Cons.IH [OF this] Cons.prems(2) q show ?case by auto
qed

lemma storeItems_last:
  "storeItems si i items bs = Some bs' \<Longrightarrow> n < length items \<Longrightarrow>
   Value (items ! n) = Some p \<Longrightarrow>
   \<forall>j. n < j \<and> j < length items \<longrightarrow> Value (items ! j) \<noteq> Some p \<Longrightarrow>
     bs' p = lookupIndex si (i + int n)"
proof (induction items arbitrary: i bs n)
  case Nil
  then show ?case by simp
next
  case (Cons item items)
  then obtain q where q: "Value item = Some q" by (cases "Value item") auto
  with Cons.prems have st: "storeItems si (i + 1) items (bs(q := lookupIndex si i)) = Some bs'"
    by simp
  show ?case
  proof (cases n)
    case 0
    with Cons.prems q have pq: "p = q" by simp
    have "\<forall>x \<in> set items. Value x \<noteq> Some p"
    proof
      fix x assume "x \<in> set items"
      then obtain j where "j < length items" "x = items ! j"
        by (auto simp: in_set_conv_nth)
      with Cons.prems(4) [rule_format, of "Suc j"] 0 show "Value x \<noteq> Some p" by simp
    qed
    from storeItems_frame [OF st this] pq 0 show ?thesis by simp
  next
    case (Suc n')
    have later: "\<forall>j. n' < j \<and> j < length items \<longrightarrow> Value (items ! j) \<noteq> Some p"
    proof (intro allI impI)
      fix j assume "n' < j \<and> j < length items"
      with Cons.prems(4) [rule_format, of "Suc j"] Suc show "Value (items ! j) \<noteq> Some p"
        by simp
    qed
    from Cons.prems Suc have "n' < length items" "Value (items ! n') = Some p" by simp_all
    from Cons.IH [OF st this later] Suc show ?thesis by (simp add: add.assoc)
  qed
qed

lemma storeItems_total:
  "\<forall>item \<in> set items. Value item \<noteq> None \<Longrightarrow> \<exists>bs'. storeItems si i items bs = Some bs'"
  by (induction items arbitrary: i bs) auto

lemma CheckListBox_Run_ok:
  assumes "\<forall>item \<in> set items. Value item \<noteq> None"
    and "itemArgs w 0 items [] = Some ia"
    and "fst (run e (runArgs e c @
             [''--checklist'', crumbs @ sep @ t (), Itoa (height e c), Itoa (width e c),
              Itoa (int (length items))] @ ia) w) = (k, None)"
  shows "\<exists>w2 bs. bools w2 = bools w \<and>
           storeItems (parseIndices (length items) k) 0 items (bools w2) = Some bs \<and>
           Run e (CheckListBox c (Some t) items validate next) crumbs w =
             (Returns next None, w2\<lparr>bools := bs\<rparr>)"
proof -
  let ?args = "runArgs e c @
             [''--checklist'', crumbs @ sep @ t (), Itoa (height e c), Itoa (width e c),
              Itoa (int (length items))] @ ia"
  obtain w1 where r: "run e ?args w = ((k, None), w1)"
    using assms(3) by (cases "run e ?args w") auto
  let ?w2 = "callValidate validate k w1"
  have b: "bools ?w2 = bools w"
    using run_cells [OF r] by (simp add: callValidate_cells)
  obtain bs where bs: "storeItems (parseIndices (length items) k) 0 items (bools ?w2) = Some bs"
    using storeItems_total [OF assms(1)] by blast
  have "\<not> list_ex (\<lambda>item. Value item = None) items"
    using assms(1) by (simp add: list_ex_iff)
  then have "Run e (CheckListBox c (Some t) items validate next) crumbs w =
      (Returns next None, ?w2\<lparr>bools := bs\<rparr>)"
    using assms(2) r bs by (simp add: CheckListBox_Run_def Let_def)
  with b bs show ?thesis by blast
qed

lemma selected_example1: "selectedIndices 3 '' 0 2 '' = {0, 2}"
proof -
  have "TrimSpace '' 0 2 '' = ''0 2''"
    by (simp add: TrimSpace_def trimLeft.simps trimRight.simps spaceWidth_def
        spaceWidthLast_def asciiSpace_def latin1Space_def wideSpace_def)
  then have "Split (TrimSpace '' 0 2 '') = [''0'', ''2'']"
    by (simp add: isReSpace_def)
  moreover have "Atoi ''0'' = Some 0" "Atoi ''2'' = Some 2"
    by (simp_all add: Atoi_def isDigit_def digitVal_def)
  ultimately show ?thesis
    by (auto simp: selectedIndices_tokens)
qed

lemma selected_example2: "selectedIndices 3 ''0 foo 5'' = {0}"
proof -
  have "TrimSpace ''0 foo 5'' = ''0 foo 5''"
    by (simp add: TrimSpace_def trimLeft.simps trimRight.simps spaceWidth_def
        spaceWidthLast_def asciiSpace_def latin1Space_def wideSpace_def)
  then have "Split (TrimSpace ''0 foo 5'') = [''0'', ''foo'', ''5'']"
    by (simp add: isReSpace_def)
  moreover have "Atoi ''0'' = Some 0" "Atoi ''foo'' = None" "Atoi ''5'' = Some 5"
    by (simp_all add: Atoi_def isDigit_def digitVal_def)
  ultimately show ?thesis
    by (auto simp: selectedIndices_tokens)
qed

text \<open>
  Claim C3, as the code has it. For a checklist whose items all have a cell, whose text
  supplier is configured and for which the external program succeeds with the text \<open>k\<close>:
  \<open>k\<close> is trimmed and split at the runs of \<open>[\t\n\f\r ]\<close>, and the selected-index set
  consists of exactly the integers in \<open>[0, n)\<close> that some piece parses to (with three
  items, \<open>" 0 2 "\<close> gives \<open>{0, 2}\<close> and \<open>"0 foo 5"\<close> gives \<open>{0}\<close>). Afterwards the cell
  of every item that shares its cell with no later item holds the membership of the
  item's index in that set; this is every item when the cells of the items are pairwise
  distinct.
\<close>

theorem CheckListBox_Run_cells:
  assumes "\<forall>item \<in> set items. Value item \<noteq> None"
    and "itemArgs w 0 items [] = Some ia"
    and "fst (run e (runArgs e c @
             [''--checklist'', crumbs @ sep @ t (), Itoa (height e c), Itoa (width e c),
              Itoa (int (length items))] @ ia) w) = (k, None)"
  shows "fst (Run e (CheckListBox c (Some t) items validate next) crumbs w) =
           Returns next None \<and>
         selectedIndices (length items) k =
           {vi. 0 \<le> vi \<and> vi < int (length items) \<and>
                (\<exists>v \<in> set (Split (TrimSpace k)). Atoi v = Some vi)} \<and>
         selectedIndices 3 '' 0 2 '' = {0, 2} \<and>
         selectedIndices 3 ''0 foo 5'' = {0} \<and>
         (\<forall>i p. i < length items \<and> Value (items ! i) = Some p \<and>
                (\<forall>j. i < j \<and> j < length items \<longrightarrow> Value (items ! j) \<noteq> Some p) \<longrightarrow>
            bools (snd (Run e (CheckListBox c (Some t) items validate next) crumbs w)) p =
              (int i \<in> selectedIndices (length items) k)) \<and>
         (distinct (map Value items) \<longrightarrow>
            (\<forall>i p. i < length items \<and> Value (items ! i) = Some p \<longrightarrow>
               bools (snd (Run e (CheckListBox c (Some t) items validate next) crumbs w)) p =
                 (int i \<in> selectedIndices (length items) k)))"
proof -
  let ?R = "Run e (CheckListBox c (Some t) items validate next) crumbs w"
  let ?n = "length items"
  from CheckListBox_Run_ok [where t = t, OF assms] obtain w2 bs where
    st: "storeItems (parseIndices ?n k) 0 items (bools w2) = Some bs"
    and R: "?R = (Returns next None, w2\<lparr>bools := bs\<rparr>)"
    by blast
  have last: "bools (snd ?R) p = (int i \<in> selectedIndices ?n k)"
    if "i < ?n" "Value (items ! i) = Some p"
      "\<forall>j. i < j \<and> j < ?n \<longrightarrow> Value (items ! j) \<noteq> Some p" for i p
    using storeItems_last [OF st that] R by (simp add: selectedIndices_def)
  have dist: "bools (snd ?R) p = (int i \<in> selectedIndices ?n k)"
    if d: "distinct (map Value items)" and i: "i < ?n" "Value (items ! i) = Some p" for i p
  proof -
    have "\<forall>j. i < j \<and> j < ?n \<longrightarrow> Value (items ! j) \<noteq> Some p"
    proof (intro allI impI)
      fix j assume j: "i < j \<and> j < ?n"
      from d have "\<forall>a<?n. \<forall>b<?n. a \<noteq> b \<longrightarrow> Value (items ! a) \<noteq> Value (items ! b)"
        by (simp add: distinct_conv_nth)
      moreover from i j have "i < ?n" "j < ?n" "i \<noteq> j" by auto
      ultimately have "Value (items ! i) \<noteq> Value (items ! j)" by blast
      with i show "Value (items ! j) \<noteq> Some p" by simp
    qed
    with i show ?thesis by (rule last)
  qed
  from R have "fst ?R = Returns next None" by simp
  with last dist show ?thesis
    using selectedIndices_tokens [of ?n k] selected_example1 selected_example2
    by blast
qed

theorem CheckListBox_Run_cells_witness:
  "fst (Run (exampleEnv '' 0 2 '' None)
          (CheckListBox exampleCommon (Some exampleText) threeItems (Some rejectNew) nodeX)
          ''home'' exampleWorld) = Returns nodeX None \<and>
   selectedIndices 3 '' 0 2 '' = {0, 2} \<and>
   bools (snd (Run (exampleEnv '' 0 2 '' None)
          (CheckListBox exampleCommon (Some exampleText) threeItems (Some rejectNew) nodeX)
          ''home'' exampleWorld)) 0 \<and>
   \<not> bools (snd (Run (exampleEnv '' 0 2 '' None)
          (CheckListBox exampleCommon (Some exampleText) threeItems (Some rejectNew) nodeX)
          ''home'' exampleWorld)) 1 \<and>
   bools (snd (Run (exampleEnv '' 0 2 '' None)
          (CheckListBox exampleCommon (Some exampleText) threeItems (Some rejectNew) nodeX)
          ''home'' exampleWorld)) 2"
proof -
  let ?R = "Run (exampleEnv '' 0 2 '' None)
          (CheckListBox exampleCommon (Some exampleText) threeItems (Some rejectNew) nodeX)
          ''home'' exampleWorld"
  have h1: "\<forall>item \<in> set threeItems. Value item \<noteq> None"
    by (simp add: threeItems_def)
  have h2: "itemArgs exampleWorld 0 threeItems [] =
      Some [Itoa 0, ''a'', ''off'', Itoa 1, ''b'', ''off'', Itoa 2, ''c'', ''off'']"
    by (simp add: threeItems_def exampleWorld_def)
  have h3: "fst (run (exampleEnv '' 0 2 '' None)
      (runArgs (exampleEnv '' 0 2 '' None) exampleCommon @
       [''--checklist'', ''home'' @ sep @ exampleText (),
        Itoa (height (exampleEnv '' 0 2 '' None) exampleCommon),
        Itoa (width (exampleEnv '' 0 2 '' None) exampleCommon),
        Itoa (int (length threeItems))] @
       [Itoa 0, ''a'', ''off'', Itoa 1, ''b'', ''off'', Itoa 2, ''c'', ''off''])
      exampleWorld) = ('' 0 2 '', None)"
    by (simp add: run_def runStdin_def exampleEnv_def)
  have d: "distinct (map Value threeItems)" and n: "length threeItems = 3"
    and v: "Value (threeItems ! 0) = Some 0" "Value (threeItems ! 1) = Some 1"
      "Value (threeItems ! 2) = Some 2"
    by (simp_all add: threeItems_def)
  note T = CheckListBox_Run_cells [where t = exampleText and validate = "Some rejectNew"
      and ?next = nodeX, OF h1 h2 h3]
  from T have f: "fst ?R = Returns nodeX None" by blast
  from T have s: "selectedIndices 3 '' 0 2 '' = {0, 2}" by blast
  from T d have c: "\<forall>i p. i < length threeItems \<and> Value (threeItems ! i) = Some p \<longrightarrow>
      bools (snd ?R) p = (int i \<in> selectedIndices (length threeItems) '' 0 2 '')"
    by blast
  from c [rule_format, of 0 0] c [rule_format, of 1 1] c [rule_format, of 2 2] n v s
  have "bools (snd ?R) 0" "\<not> bools (snd ?R) 1" "bools (snd ?R) 2"
    by simp_all
  with f s show ?thesis by blast
qed

text \<open>
  Claim C3 as stated fails when two items share a cell. With two items on the cell 0
  and the returned text \<open>0\<close>, the index 0 is selected, item 0 has the cell 0, and after
  the run the cell 0 is false: the store loop wrote true for item 0 and then false for
  item 1.
\<close>

theorem CheckListBox_Run_shared_cell_counterexample:
  "fst (Run (exampleEnv ''0'' None) sharedChecklist ''home'' exampleWorld) = Returns nil None \<and>
   Value (sharedItems ! 0) = Some 0 \<and>
   0 \<in> selectedIndices (length sharedItems) ''0'' \<and>
   \<not> bools (snd (Run (exampleEnv ''0'' None) sharedChecklist ''home'' exampleWorld)) 0"
proof -
  have t: "TrimSpace ''0'' = ''0''"
    by (simp add: TrimSpace_def trimLeft.simps trimRight.simps spaceWidth_def
        spaceWidthLast_def asciiSpace_def latin1Space_def wideSpace_def)
  have a: "Atoi ''0'' = Some 0"
    by (simp add: Atoi_def isDigit_def digitVal_def)
  have p: "parseIndices (Suc (Suc 0)) ''0'' = [0 \<mapsto> True]"
    by (simp add: parseIndices_def t a isReSpace_def)
  have "Run (exampleEnv ''0'' None) sharedChecklist ''home'' exampleWorld =
      (Returns nil None,
       exampleWorld\<lparr>trace :=
           [ExecDialog
              ([''--output-fd'', ''3''] @ runArgs (exampleEnv ''0'' None) exampleCommon @
               [''--checklist'', ''home'' @ sep @ exampleText (),
                Itoa (height (exampleEnv ''0'' None) exampleCommon),
                Itoa (width (exampleEnv ''0'' None) exampleCommon), Itoa 2] @
               [Itoa 0, ''a'', ''off'', Itoa 1, ''b'', ''off''])
              OsStdin],
         bools := (\<lambda>a. False)(0 := True, 0 := False)\<rparr>)"
    by (simp add: sharedChecklist_def sharedItems_def CheckListBox_Run_def run_def
        runStdin_def exampleEnv_def exampleWorld_def callValidate_def p lookupIndex_def Let_def)
  moreover have "0 \<in> selectedIndices (length sharedItems) ''0''"
    by (simp add: selectedIndices_def sharedItems_def p lookupIndex_def)
  ultimately show ?thesis
    by (simp add: sharedItems_def)
qed

end
